theory Spec2Isabelle
  imports Complex_Main "HOL-Library.Char_ord" "HOL-Library.List_Lexorder"
begin

section \<open>Data model\<close>

text \<open>
  A JavaScript number is a double: \<open>NaN\<close>, an infinity, or a finite value, here a real
  (every finite double is one). The code compares numbers, and does arithmetic in three
  places: \<open>durationSeconds * 1000\<close>, \<open>startTime + durationSeconds * 1000\<close> and
  \<open>auction.endTime - Date.now()\<close>.
\<close>

datatype number = NaN | NegInf | Fin real | PosInf

text \<open>\<open>a < b\<close> and \<open>a <= b\<close> on numbers; \<open>a > b\<close> is \<open>b < a\<close>. Both are false on \<open>NaN\<close>.\<close>

fun num_lt :: "number \<Rightarrow> number \<Rightarrow> bool" where
  "num_lt (Fin x) (Fin y) = (x < y)"
| "num_lt NegInf (Fin y) = True"
| "num_lt NegInf PosInf = True"
| "num_lt (Fin x) PosInf = True"
| "num_lt _ _ = False"

fun num_le :: "number \<Rightarrow> number \<Rightarrow> bool" where
  "num_le (Fin x) (Fin y) = (x \<le> y)"
| "num_le NaN _ = False"
| "num_le _ NaN = False"
| "num_le NegInf _ = True"
| "num_le _ PosInf = True"
| "num_le _ _ = False"

text \<open>
  Arithmetic. On finite operands the result is the exact result rounded to a double by
  \<open>rnd\<close> (to the nearest double, to an infinity beyond the largest one); \<open>rnd\<close> is a
  parameter of the operations that compute, and what is proved holds for every \<open>rnd\<close>.
\<close>

fun num_neg :: "number \<Rightarrow> number" where
  "num_neg NaN = NaN"
| "num_neg NegInf = PosInf"
| "num_neg (Fin x) = Fin (- x)"
| "num_neg PosInf = NegInf"

fun num_add :: "(real \<Rightarrow> number) \<Rightarrow> number \<Rightarrow> number \<Rightarrow> number" where
  "num_add rnd (Fin x) (Fin y) = rnd (x + y)"
| "num_add rnd NaN _ = NaN"
| "num_add rnd _ NaN = NaN"
| "num_add rnd PosInf NegInf = NaN"
| "num_add rnd NegInf PosInf = NaN"
| "num_add rnd PosInf _ = PosInf"
| "num_add rnd NegInf _ = NegInf"
| "num_add rnd _ PosInf = PosInf"
| "num_add rnd _ NegInf = NegInf"

definition num_sub :: "(real \<Rightarrow> number) \<Rightarrow> number \<Rightarrow> number \<Rightarrow> number" where
  "num_sub rnd a b = num_add rnd a (num_neg b)"

text \<open>An infinity times \<open>x\<close>: \<open>NaN\<close> for zero, else the infinity with the sign of the product.\<close>

definition inf_times :: "bool \<Rightarrow> real \<Rightarrow> number" where
  "inf_times positive x =
     (if x = 0 then NaN else if (0 < x) = positive then PosInf else NegInf)"

fun num_mul :: "(real \<Rightarrow> number) \<Rightarrow> number \<Rightarrow> number \<Rightarrow> number" where
  "num_mul rnd (Fin x) (Fin y) = rnd (x * y)"
| "num_mul rnd NaN _ = NaN"
| "num_mul rnd _ NaN = NaN"
| "num_mul rnd PosInf (Fin y) = inf_times True y"
| "num_mul rnd NegInf (Fin y) = inf_times False y"
| "num_mul rnd (Fin x) PosInf = inf_times True x"
| "num_mul rnd (Fin x) NegInf = inf_times False x"
| "num_mul rnd PosInf PosInf = PosInf"
| "num_mul rnd NegInf NegInf = PosInf"
| "num_mul rnd PosInf NegInf = NegInf"
| "num_mul rnd NegInf PosInf = NegInf"

type_synonym auctionId = string

text \<open>A JavaScript value that may be \<open>undefined\<close> (also: an absent property) or \<open>null\<close>.\<close>

datatype 'a js = Undefined | Null | Val 'a

text \<open>What a comparison makes of its operand: \<open>null\<close> counts as 0, \<open>undefined\<close> as \<open>NaN\<close>.\<close>

fun toNumber :: "number js \<Rightarrow> number" where
  "toNumber Undefined = NaN"
| "toNumber Null = Fin 0"
| "toNumber (Val n) = n"

text \<open>The two values of \<open>auction.status\<close>: \<open>'active'\<close> and \<open>'ended'\<close>.\<close>

datatype auction_status = Active | Ended

text \<open>
  The number properties are \<open>number js\<close>: an object read from the store has \<open>null\<close>
  where a number that is not finite was written.
\<close>

record bid =
  bidderName :: string
  amount :: "number js"
  time :: "number js"

text \<open>
  The object built by \<open>createAuction\<close>; \<open>winner\<close> and \<open>winningBid\<close> are absent until
  \<open>endAuction\<close> assigns them.
\<close>

record auction =
  item :: string
  startPrice :: "number js"
  startTime :: "number js"
  endTime :: "number js"
  bids :: "bid list"
  status :: auction_status
  winner :: "string js"
  winningBid :: "number js"

text \<open>
  The store's \<open>valueEncoding: 'json'\<close>: what \<open>JSON.parse(JSON.stringify(v))\<close> makes of a
  number property and of an auction. A finite number and \<open>null\<close> come back as they are,
  \<open>NaN\<close> and the infinities come back as \<open>null\<close>, an \<open>undefined\<close> property is left out.
\<close>

fun encode_number :: "number js \<Rightarrow> number js" where
  "encode_number (Val (Fin x)) = Val (Fin x)"
| "encode_number (Val _) = Null"
| "encode_number Null = Null"
| "encode_number Undefined = Undefined"

definition encode_bid :: "bid \<Rightarrow> bid" where
  "encode_bid b = b\<lparr>amount := encode_number (amount b), time := encode_number (time b)\<rparr>"

definition encode_auction :: "auction \<Rightarrow> auction" where
  "encode_auction a =
     a\<lparr>startPrice := encode_number (startPrice a), startTime := encode_number (startTime a),
       endTime := encode_number (endTime a), bids := map encode_bid (bids a),
       winningBid := encode_number (winningBid a)\<rparr>"

text \<open>What a rejected promise carries: \<open>new Error(message)\<close> or the runtime's TypeError.\<close>

datatype js_error = Error string | TypeError string

fun message :: "js_error \<Rightarrow> string" where
  "message (Error m) = m"
| "message (TypeError m) = m"

text \<open>A pending \<open>setTimeout(() => this.endAuction(auctionId), duration)\<close> of the runtime.\<close>

record timeout =
  handle :: nat
  callbackId :: auctionId
  delay :: number

text \<open>
  The service object. \<open>db\<close> is the Hyperbee over the append-only Hypercore: every
  \<open>put\<close> appends an entry (newest first here) and \<open>get\<close> reads the newest entry of the
  key. \<open>auctionTimers\<close> is the \<open>Map\<close> of the class, \<open>pending\<close> the runtime's scheduled
  timeouts, \<open>nextHandle\<close> the next fresh timer handle. \<open>inFlight\<close> are the calls of
  \<open>endAuction\<close> that \<open>getAuction\<close> started and did not await, each with the record its
  \<open>db.get\<close> read, oldest first.
\<close>

record service =
  db :: "(auctionId \<times> auction) list"
  auctionTimers :: "auctionId \<rightharpoonup> nat"
  pending :: "timeout list"
  nextHandle :: nat
  inFlight :: "(auctionId \<times> auction) list"

section \<open>Persistence and timers\<close>

definition db_get :: "service \<Rightarrow> auctionId \<Rightarrow> auction option" where
  "db_get s key = map_of (db s) key"

definition db_put :: "auctionId \<Rightarrow> auction \<Rightarrow> service \<Rightarrow> service" where
  "db_put key v s = s\<lparr>db := (key, encode_auction v) # db s\<rparr>"

definition clearTimeout :: "nat \<Rightarrow> service \<Rightarrow> service" where
  "clearTimeout h s = s\<lparr>pending := filter (\<lambda>t. handle t \<noteq> h) (pending s)\<rparr>"

text \<open>
  \<open>setAuctionTimer\<close>: a new timeout is scheduled and its handle stored under the
  identifier. Nothing is done with a handle already stored there.
\<close>

definition setAuctionTimer :: "auctionId \<Rightarrow> number \<Rightarrow> service \<Rightarrow> service" where
  "setAuctionTimer auctionId duration s =
     s\<lparr>pending := pending s @ [\<lparr>handle = nextHandle s, callbackId = auctionId, delay = duration\<rparr>],
       auctionTimers := (auctionTimers s)(auctionId \<mapsto> nextHandle s),
       nextHandle := Suc (nextHandle s)\<rparr>"

section \<open>Auction operations\<close>

definition null_value_error :: js_error where
  "null_value_error = TypeError ''Cannot read properties of null (reading 'value')''"

text \<open>
  \<open>endAuction\<close> after its \<open>await this.db.get(auctionId)\<close>, on what that read returned.
  \<open>auctionNode.value\<close> is read before anything is tested, so an absent key (\<open>db.get\<close>
  gives \<open>null\<close>) raises the runtime's TypeError; the test
  \<open>if (!auction) throw new Error('Auction not found')\<close> that follows never fires, a stored
  value being an object.
\<close>

definition endAuction_write ::
  "auctionId \<Rightarrow> auction option \<Rightarrow> service \<Rightarrow> (js_error + auction) \<times> service" where
  "endAuction_write auctionId auctionNode s =
     (case auctionNode of
        None \<Rightarrow> (Inl null_value_error, s)
      | Some auction \<Rightarrow>
          if status auction \<noteq> Active then (Inr auction, s)
          else
            let ended =
                  (if bids auction \<noteq> []
                   then auction\<lparr>status := Ended,
                          winner := Val (bidderName (last (bids auction))),
                          winningBid := amount (last (bids auction))\<rparr>
                   else auction\<lparr>status := Ended, winner := Null, winningBid := Null\<rparr>);
                s1 = db_put auctionId ended s;
                s2 = (case auctionTimers s1 auctionId of
                        None \<Rightarrow> s1
                      | Some timer \<Rightarrow>
                          (clearTimeout timer s1)\<lparr>auctionTimers := (auctionTimers s1)(auctionId := None)\<rparr>)
            in (Inr ended, s2))"

text \<open>\<open>endAuction\<close>, called and awaited: the read, then the rest.\<close>

definition endAuction :: "auctionId \<Rightarrow> service \<Rightarrow> (js_error + auction) \<times> service" where
  "endAuction auctionId s = endAuction_write auctionId (db_get s auctionId) s"

text \<open>
  \<open>getAuction\<close>, with \<open>now\<close> the reading of \<open>Date.now()\<close>. On an expired active record
  the code returns \<open>this.endAuction(auctionId).value\<close>: \<open>endAuction\<close> is started, which
  issues its \<open>db.get\<close>, and the property \<open>value\<close> of the promise it returns is
  \<open>undefined\<close>. The started call is left in flight.
\<close>

definition getAuction :: "real \<Rightarrow> auctionId \<Rightarrow> service \<Rightarrow> auction js \<times> service" where
  "getAuction now auctionId s =
     (case db_get s auctionId of
        None \<Rightarrow> (Null, s)
      | Some auction \<Rightarrow>
          if status auction = Active \<and> num_lt (toNumber (endTime auction)) (Fin now)
          then (Undefined, s\<lparr>inFlight := inFlight s @ [(auctionId, auction)]\<rparr>)
          else (Val auction, s))"

text \<open>The oldest \<open>endAuction\<close> in flight runs to its end; nobody reads its result.\<close>

definition endAuctionSettles :: "service \<Rightarrow> service" where
  "endAuctionSettles s =
     (case inFlight s of
        [] \<Rightarrow> s
      | (auctionId, auction) # rest \<Rightarrow>
          snd (endAuction_write auctionId (Some auction) (s\<lparr>inFlight := rest\<rparr>)))"

text \<open>
  \<open>placeBid\<close> after its \<open>await this.getAuction(auctionId)\<close>: the checks on the record
  that was read, the append and the \<open>put\<close>. \<open>now2\<close> and \<open>now3\<close> are the readings of
  \<open>Date.now()\<close> at the deadline check and in the new bid.
\<close>

definition placeBid_write ::
  "real \<Rightarrow> real \<Rightarrow> auctionId \<Rightarrow> string \<Rightarrow> number \<Rightarrow> auction js \<Rightarrow> service
     \<Rightarrow> (js_error + bool) \<times> service" where
  "placeBid_write now2 now3 auctionId name amt found s =
     (case found of
        Undefined \<Rightarrow> (Inl (Error ''Auction not found''), s)
      | Null \<Rightarrow> (Inl (Error ''Auction not found''), s)
      | Val auction \<Rightarrow>
          if status auction \<noteq> Active then (Inl (Error ''Auction is not active''), s)
          else if num_lt (toNumber (endTime auction)) (Fin now2)
            then (Inl (Error ''Auction has ended''), s)
          else if num_le amt (toNumber (startPrice auction)) then (Inl (Error ''Bid too low''), s)
          else if bids auction \<noteq> [] \<and> num_le amt (toNumber (amount (last (bids auction))))
            then (Inl (Error ''Bid must be higher than the current highest bid''), s)
          else
            let newBid = \<lparr>bidderName = name, amount = Val amt, time = Val (Fin now3)\<rparr>
            in (Inr True, db_put auctionId (auction\<lparr>bids := bids auction @ [newBid]\<rparr>) s))"

text \<open>\<open>placeBid\<close>: the read through \<open>getAuction\<close> (reading \<open>now1\<close>), then the rest.\<close>

definition placeBid ::
  "real \<Rightarrow> real \<Rightarrow> real \<Rightarrow> auctionId \<Rightarrow> string \<Rightarrow> number \<Rightarrow> service
     \<Rightarrow> (js_error + bool) \<times> service" where
  "placeBid now1 now2 now3 auctionId name amt s =
     (let (found, s1) = getAuction now1 auctionId s
      in placeBid_write now2 now3 auctionId name amt found s1)"

text \<open>
  \<open>createAuction\<close>, with \<open>uuid\<close> the result of \<open>crypto.randomUUID()\<close> and \<open>now\<close> the
  reading of \<open>Date.now()\<close>.
\<close>

definition createAuction ::
  "(real \<Rightarrow> number) \<Rightarrow> auctionId \<Rightarrow> real \<Rightarrow> string \<Rightarrow> number \<Rightarrow> number \<Rightarrow> service
     \<Rightarrow> auctionId \<times> service" where
  "createAuction rnd uuid now itm price durationSeconds s =
     (let auction = \<lparr>item = itm, startPrice = Val price, startTime = Val (Fin now),
                      endTime = Val (num_add rnd (Fin now) (num_mul rnd durationSeconds (Fin 1000))),
                      bids = [], status = Active, winner = Undefined, winningBid = Undefined\<rparr>;
          s1 = db_put uuid auction s
      in (uuid, setAuctionTimer uuid (num_mul rnd durationSeconds (Fin 1000)) s1))"

text \<open>
  \<open>db.createReadStream()\<close>: every key once, in key order, with its newest value.
\<close>

definition createReadStream :: "service \<Rightarrow> (auctionId \<times> auction) list" where
  "createReadStream s =
     List.map_filter (\<lambda>key. map_option (Pair key) (db_get s key)) (sort (remdups (map fst (db s))))"

text \<open>
  \<open>restoreAuctionTimers\<close>: \<open>restoreEntry\<close> is the body of its loop for one entry of the
  stream, and \<open>clock key\<close> gives the two readings of \<open>Date.now()\<close> made for that entry.
\<close>

definition restoreEntry ::
  "(real \<Rightarrow> number) \<Rightarrow> (auctionId \<Rightarrow> real \<times> real) \<Rightarrow> auctionId \<times> auction \<Rightarrow> service \<Rightarrow> service" where
  "restoreEntry rnd clock entry s =
     (case entry of (key, auction) \<Rightarrow>
        if status auction = Active \<and> num_lt (Fin (fst (clock key))) (toNumber (endTime auction))
        then setAuctionTimer key (num_sub rnd (toNumber (endTime auction)) (Fin (snd (clock key)))) s
        else s)"

definition restoreAuctionTimers ::
  "(real \<Rightarrow> number) \<Rightarrow> (auctionId \<Rightarrow> real \<times> real) \<Rightarrow> service \<Rightarrow> service" where
  "restoreAuctionTimers rnd clock s = fold (restoreEntry rnd clock) (createReadStream s) s"

text \<open>
  A scheduled timeout fires: the runtime drops it and runs its callback
  \<open>() => this.endAuction(auctionId)\<close>, whose result nobody reads.
\<close>

definition timerFires :: "nat \<Rightarrow> service \<Rightarrow> service" where
  "timerFires h s =
     (case find (\<lambda>t. handle t = h) (pending s) of
        None \<Rightarrow> s
      | Some t \<Rightarrow> snd (endAuction (callbackId t) (clearTimeout h s)))"

text \<open>
  A new process on the same data directory: the log is kept, the timers and the calls in
  flight are gone, and \<open>init\<close> runs \<open>restoreAuctionTimers\<close>.
\<close>

definition init :: "(real \<Rightarrow> number) \<Rightarrow> (auctionId \<Rightarrow> real \<times> real) \<Rightarrow> service \<Rightarrow> service" where
  "init rnd clock s =
     restoreAuctionTimers rnd clock (s\<lparr>auctionTimers := Map.empty, pending := [], inFlight := []\<rparr>)"

text \<open>
  The states the service reaches when the calls made to it run one after the other, each
  to its end; the calls of \<open>endAuction\<close> left in flight by \<open>getAuction\<close> end at any
  later moment. \<open>crypto.randomUUID()\<close> gives an identifier not in use.
\<close>

inductive reachable :: "service \<Rightarrow> bool" where
  start: "reachable \<lparr>db = [], auctionTimers = Map.empty, pending = [], nextHandle = 0, inFlight = []\<rparr>"
| create: "reachable s \<Longrightarrow> db_get s uuid = None \<Longrightarrow>
     reachable (snd (createAuction rnd uuid now itm price durationSeconds s))"
| bid: "reachable s \<Longrightarrow> reachable (snd (placeBid now1 now2 now3 auctionId name amt s))"
| get: "reachable s \<Longrightarrow> reachable (snd (getAuction now auctionId s))"
| end_auction: "reachable s \<Longrightarrow> reachable (snd (endAuction auctionId s))"
| settle: "reachable s \<Longrightarrow> reachable (endAuctionSettles s)"
| timer: "reachable s \<Longrightarrow> reachable (timerFires h s)"
| restart: "reachable s \<Longrightarrow> reachable (init rnd clock s)"

text \<open>A number property as the store returns it: a finite number or \<open>null\<close>.\<close>

fun json_number :: "number js \<Rightarrow> bool" where
  "json_number (Val (Fin x)) = True"
| "json_number Null = True"
| "json_number _ = False"

fun finite_number :: "number js \<Rightarrow> bool" where
  "finite_number (Val (Fin x)) = True"
| "finite_number _ = False"

text \<open>A record as the store returns it.\<close>

definition stored :: "auction \<Rightarrow> bool" where
  "stored a \<longleftrightarrow>
     json_number (startPrice a) \<and> json_number (startTime a) \<and> json_number (endTime a)
     \<and> (\<forall>b \<in> set (bids a). json_number (amount b) \<and> json_number (time b))
     \<and> (winningBid a = Undefined \<or> json_number (winningBid a))"

text \<open>
  The bids of a record, when the amounts of all of them are finite numbers: strictly
  increasing amounts, all above the start price, as \<open><\<close> compares them.
\<close>

definition bids_ok :: "auction \<Rightarrow> bool" where
  "bids_ok a \<longleftrightarrow>
     ((\<forall>b \<in> set (bids a). finite_number (amount b)) \<longrightarrow>
        sorted_wrt (\<lambda>b b'. num_lt (toNumber (amount b)) (toNumber (amount b'))) (bids a)
        \<and> (\<forall>b \<in> set (bids a). num_lt (toNumber (startPrice a)) (toNumber (amount b))))"

text \<open>An ended record names the last bid as the winner, or nobody.\<close>

definition outcome_ok :: "auction \<Rightarrow> bool" where
  "outcome_ok a \<longleftrightarrow>
     (status a = Ended \<longrightarrow>
        (if bids a \<noteq> []
         then winner a = Val (bidderName (last (bids a))) \<and> winningBid a = amount (last (bids a))
         else winner a = Null \<and> winningBid a = Null))"

definition record_ok :: "auction \<Rightarrow> bool" where
  "record_ok a \<longleftrightarrow> stored a \<and> bids_ok a \<and> outcome_ok a"

definition records_ok :: "service \<Rightarrow> bool" where
  "records_ok s \<longleftrightarrow>
     (\<forall>key a. db_get s key = Some a \<longrightarrow> record_ok a) \<and> (\<forall>e \<in> set (inFlight s). record_ok (snd e))"

text \<open>The timeouts of the runtime whose callback ends the given auction.\<close>

definition pendingFor :: "auctionId \<Rightarrow> service \<Rightarrow> timeout list" where
  "pendingFor auctionId s = filter (\<lambda>t. callbackId t = auctionId) (pending s)"

text \<open>
  No identifier has two scheduled callbacks, and every scheduled callback is for a stored
  auction.
\<close>

definition timers_ok :: "service \<Rightarrow> bool" where
  "timers_ok s \<longleftrightarrow>
     (\<forall>k. length (pendingFor k s) \<le> 1) \<and> (\<forall>t \<in> set (pending s). db_get s (callbackId t) \<noteq> None)"

section \<open>Two bids in flight\<close>

text \<open>
  \<open>placeBid\<close> gives up control at \<open>await this.getAuction(auctionId)\<close> and at
  \<open>await this.db.put(auctionId, auction)\<close>, and nothing in the class keeps a second call for
  the same identifier from starting in between. One schedule of two calls: both reads
  complete, then the first call's checks and put, then the second's. Each call works on
  the record its own read decoded.
\<close>

definition placeBid_interleaved ::
  "real \<Rightarrow> auctionId \<Rightarrow> string \<times> number \<Rightarrow> string \<times> number \<Rightarrow> service
     \<Rightarrow> ((js_error + bool) \<times> (js_error + bool)) \<times> service" where
  "placeBid_interleaved now auctionId b1 b2 s =
     (let (found1, s1) = getAuction now auctionId s;
          (found2, s2) = getAuction now auctionId s1;
          (r1, s3) = placeBid_write now now auctionId (fst b1) (snd b1) found1 s2;
          (r2, s4) = placeBid_write now now auctionId (fst b2) (snd b2) found2 s3
      in ((r1, r2), s4))"

section \<open>Request multiplexer\<close>

text \<open>
  The object \<open>{ result }\<close> or \<open>{ error: message }\<close> given to \<open>sendResponse\<close>, and the
  frame \<open>{ id, ...response }\<close> it writes to the connection.
\<close>

datatype 'v response = Result 'v | Failure string

record 'v reply =
  reply_id :: 'v
  body :: "'v response"

text \<open>A decoded inbound frame \<open>{ method, params, id }\<close>, \<open>params\<close> an array.\<close>

record 'v request =
  methodName :: string
  params :: "'v list"
  request_id :: 'v

text \<open>
  A handler takes the spread parameters and the state it works on, and resolves (\<open>Inr\<close>)
  or rejects (\<open>Inl\<close>). \<open>written\<close> are the frames given to \<open>conn.write\<close>, oldest first.
\<close>

type_synonym ('v, 's) handler = "'v list \<Rightarrow> 's \<Rightarrow> (js_error + 'v) \<times> 's"

record ('v, 's) rpc =
  handlers :: "string \<rightharpoonup> ('v, 's) handler"
  written :: "'v reply list"

definition respond :: "string \<Rightarrow> ('v, 's) handler \<Rightarrow> ('v, 's) rpc \<Rightarrow> ('v, 's) rpc" where
  "respond m handler r = r\<lparr>handlers := (handlers r)(m \<mapsto> handler)\<rparr>"

definition sendResponse :: "'v \<Rightarrow> 'v response \<Rightarrow> ('v, 's) rpc \<Rightarrow> ('v, 's) rpc" where
  "sendResponse ident response r = r\<lparr>written := written r @ [\<lparr>reply_id = ident, body = response\<rparr>]\<rparr>"

definition handleMessage :: "'v request \<Rightarrow> ('v, 's) rpc \<Rightarrow> 's \<Rightarrow> ('v, 's) rpc \<times> 's" where
  "handleMessage msg r s =
     (case handlers r (methodName msg) of
        Some handler \<Rightarrow>
          (case handler (params msg) s of
             (Inr result, s') \<Rightarrow> (sendResponse (request_id msg) (Result result) r, s')
           | (Inl error, s') \<Rightarrow> (sendResponse (request_id msg) (Failure (message error)) r, s'))
      | None \<Rightarrow> (sendResponse (request_id msg) (Failure ''Method not found'') r, s))"

section \<open>Example states\<close>

text \<open>
  The numbers computed in the examples are whole numbers far below \<open>2^53\<close>: they are
  doubles, and rounding returns them as they are.
\<close>

definition exact :: "real \<Rightarrow> number" where
  "exact x = Fin x"

definition vase :: auction where
  "vase = \<lparr>item = ''Vase'', startPrice = Val (Fin 10), startTime = Val (Fin 0),
            endTime = Val (Fin 1000), bids = [], status = Active, winner = Undefined,
            winningBid = Undefined\<rparr>"

definition fresh_service :: service where
  "fresh_service = \<lparr>db = [], auctionTimers = Map.empty, pending = [], nextHandle = 0, inFlight = []\<rparr>"

text \<open>After \<open>createAuction('Vase', 10, 1)\<close> at time 0, and after Alice's bid of 15 at time 100.\<close>

definition vase_service :: service where
  "vase_service = snd (createAuction exact ''a1'' 0 ''Vase'' (Fin 10) (Fin 1) fresh_service)"

definition alice_service :: service where
  "alice_service = snd (placeBid 100 100 100 ''a1'' ''Alice'' (Fin 15) vase_service)"

text \<open>After an explicit \<open>endAuction\<close> on that, and the record it leaves.\<close>

definition ended_service :: service where
  "ended_service = snd (endAuction ''a1'' alice_service)"

text \<open>After Bob's bid of 20 at time 200 instead.\<close>

definition bob_service :: service where
  "bob_service = snd (placeBid 200 200 200 ''a1'' ''Bob'' (Fin 20) alice_service)"

text \<open>After Carol's bid of \<open>Infinity\<close> at time 150 instead, and Bob's bid of 11 after hers.\<close>

definition carol_service :: service where
  "carol_service = snd (placeBid 150 150 150 ''a1'' ''Carol'' PosInf alice_service)"

definition carol_bob_service :: service where
  "carol_bob_service = snd (placeBid 200 200 200 ''a1'' ''Bob'' (Fin 11) carol_service)"

text \<open>A multiplexer with a handler that resolves and one that rejects, on a counter.\<close>

definition echo_rpc :: "(string, nat) rpc" where
  "echo_rpc = respond ''fail'' (\<lambda>ps n. (Inl (Error ''boom''), Suc n))
               (respond ''echo'' (\<lambda>ps n. (Inr (concat ps), Suc n))
                  \<lparr>handlers = Map.empty, written = []\<rparr>)"

definition ended_vase :: auction where
  "ended_vase = vase\<lparr>bids := [\<lparr>bidderName = ''Alice'', amount = Val (Fin 15), time = Val (Fin 100)\<rparr>],
                  status := Ended, winner := Val ''Alice'', winningBid := Val (Fin 15)\<rparr>"

section \<open>Reading and writing the log\<close>

lemmas service_ops = db_get_def db_put_def clearTimeout_def setAuctionTimer_def endAuction_def
  endAuction_write_def getAuction_def endAuctionSettles_def placeBid_def placeBid_write_def
  createAuction_def null_value_error_def encode_auction_def encode_bid_def Let_def

lemmas example_states = exact_def vase_def fresh_service_def vase_service_def alice_service_def
  ended_service_def ended_vase_def bob_service_def carol_service_def carol_bob_service_def

lemma db_get_setAuctionTimer [simp]: "db_get (setAuctionTimer k d s) = db_get s"
  by (simp add: db_get_def setAuctionTimer_def fun_eq_iff)

lemma db_get_clearTimeout [simp]: "db_get (clearTimeout h s) = db_get s"
  by (simp add: db_get_def clearTimeout_def fun_eq_iff)

lemma db_get_db_put:
  "db_get (db_put k v s) key = (if key = k then Some (encode_auction v) else db_get s key)"
  by (simp add: db_get_def db_put_def)

lemma db_get_timers_update [simp]: "db_get (s\<lparr>auctionTimers := m\<rparr>) = db_get s"
  "db_get (s\<lparr>pending := p\<rparr>) = db_get s" "db_get (s\<lparr>inFlight := f\<rparr>) = db_get s"
  by (simp_all add: db_get_def fun_eq_iff)

lemma inFlight_db_put [simp]: "inFlight (db_put k v s) = inFlight s"
  by (simp add: db_put_def)

lemma inFlight_setAuctionTimer [simp]: "inFlight (setAuctionTimer k d s) = inFlight s"
  by (simp add: setAuctionTimer_def)

lemma inFlight_clearTimeout [simp]: "inFlight (clearTimeout h s) = inFlight s"
  by (simp add: clearTimeout_def)

section \<open>Numbers and the store's encoding\<close>

lemma num_lt_trans: "num_lt a b \<Longrightarrow> num_lt b c \<Longrightarrow> num_lt a c"
  by (cases a; cases b; cases c) simp_all

lemma not_num_le_finite: "\<not> num_le (Fin x) b \<Longrightarrow> b \<noteq> NaN \<Longrightarrow> num_lt b (Fin x)"
  by (cases b) simp_all

lemma json_number_encode [simp]: "json_number x \<Longrightarrow> encode_number x = x"
  by (cases x rule: encode_number.cases) simp_all

lemma json_number_encode_Val [simp]: "json_number (encode_number (Val n))"
  by (cases n) simp_all

lemma json_number_toNumber: "json_number x \<Longrightarrow> toNumber x \<noteq> NaN"
  by (cases x rule: encode_number.cases) simp_all

lemma finite_number_encode: "finite_number (encode_number (Val n)) \<Longrightarrow> \<exists>x. n = Fin x"
  by (cases n) simp_all

lemma finite_number_json: "finite_number x \<Longrightarrow> json_number x"
  by (cases x rule: encode_number.cases) simp_all

lemma stored_encode_bid: "json_number (amount b) \<Longrightarrow> json_number (time b) \<Longrightarrow> encode_bid b = b"
  by (simp add: encode_bid_def)

lemma stored_encode_auction: "stored a \<Longrightarrow> encode_auction a = a"
proof -
  assume s: "stored a"
  then have "map encode_bid (bids a) = bids a"
    by (simp add: stored_def stored_encode_bid map_idI)
  moreover from s have "encode_number (winningBid a) = winningBid a"
    by (auto simp: stored_def)
  ultimately show ?thesis using s by (simp add: encode_auction_def stored_def)
qed

section \<open>Stored records\<close>

lemma bids_ok_same:
  "bids a' = bids a \<Longrightarrow> startPrice a' = startPrice a \<Longrightarrow> bids_ok a' = bids_ok a"
  by (simp add: bids_ok_def)

text \<open>The record \<open>endAuction\<close> writes for an Active record that was read from the store.\<close>

lemma ended_record_ok:
  assumes "record_ok a"
  defines "e \<equiv> (if bids a \<noteq> []
                   then a\<lparr>status := Ended, winner := Val (bidderName (last (bids a))),
                          winningBid := amount (last (bids a))\<rparr>
                   else a\<lparr>status := Ended, winner := Null, winningBid := Null\<rparr>)"
  shows "encode_auction e = e" and "record_ok e" and "status e = Ended" and "bids e = bids a"
proof -
  from assms(1) have st: "stored a" and bo: "bids_ok a" by (simp_all add: record_ok_def)
  show b: "bids e = bids a" and "status e = Ended" by (simp_all add: e_def)
  have sp: "startPrice e = startPrice a" by (simp add: e_def)
  have "stored e"
  proof (cases "bids a = []")
    case True
    with st show ?thesis by (simp add: e_def stored_def)
  next
    case False
    then have "last (bids a) \<in> set (bids a)" by simp
    with st have "json_number (amount (last (bids a)))" by (simp add: stored_def)
    with st False show ?thesis by (simp add: e_def stored_def)
  qed
  moreover have "outcome_ok e" by (simp add: e_def outcome_ok_def)
  moreover from bo have "bids_ok e" by (simp add: bids_ok_same [OF b sp])
  ultimately show "record_ok e" and "encode_auction e = e"
    by (simp_all add: record_ok_def stored_encode_auction)
qed

lemma endAuction_write_cases:
  "endAuction_write auctionId auctionNode s =
     (case auctionNode of
        None \<Rightarrow> (Inl null_value_error, s)
      | Some a \<Rightarrow>
          if status a \<noteq> Active then (Inr a, s)
          else (Inr (if bids a \<noteq> []
                     then a\<lparr>status := Ended, winner := Val (bidderName (last (bids a))),
                            winningBid := amount (last (bids a))\<rparr>
                     else a\<lparr>status := Ended, winner := Null, winningBid := Null\<rparr>),
                snd (endAuction_write auctionId auctionNode s)))"
  by (simp add: endAuction_write_def Let_def split: option.splits)

lemma db_get_endAuction_write:
  "db_get (snd (endAuction_write auctionId auctionNode s)) key =
     (case auctionNode of
        None \<Rightarrow> db_get s key
      | Some a \<Rightarrow>
          if key = auctionId \<and> status a = Active
          then Some (encode_auction
                 (if bids a \<noteq> []
                  then a\<lparr>status := Ended, winner := Val (bidderName (last (bids a))),
                         winningBid := amount (last (bids a))\<rparr>
                  else a\<lparr>status := Ended, winner := Null, winningBid := Null\<rparr>))
          else db_get s key)"
  by (auto simp: endAuction_write_def Let_def db_get_db_put split: option.splits)

lemma inFlight_endAuction_write [simp]:
  "inFlight (snd (endAuction_write auctionId auctionNode s)) = inFlight s"
  by (auto simp: endAuction_write_def Let_def split: option.splits)

lemma records_ok_endAuction_write:
  assumes "records_ok s" and "\<And>a. auctionNode = Some a \<Longrightarrow> record_ok a"
  shows "records_ok (snd (endAuction_write auctionId auctionNode s))"
proof -
  have "record_ok a'" if g: "db_get (snd (endAuction_write auctionId auctionNode s)) key = Some a'" for key a'
  proof (cases "\<exists>a. auctionNode = Some a \<and> key = auctionId \<and> status a = Active")
    case True
    then obtain a where a: "auctionNode = Some a" "key = auctionId" "status a = Active" by blast
    from assms(2) a(1) have "record_ok a" by simp
    from ended_record_ok(1,2) [OF this] g a show ?thesis by (simp add: db_get_endAuction_write)
  next
    case False
    with g have "db_get s key = Some a'"
      by (auto simp: db_get_endAuction_write split: option.splits if_splits)
    with assms(1) show ?thesis by (simp add: records_ok_def)
  qed
  with assms(1) show ?thesis by (simp add: records_ok_def)
qed

lemma records_ok_endAuction: "records_ok s \<Longrightarrow> records_ok (snd (endAuction auctionId s))"
  unfolding endAuction_def by (rule records_ok_endAuction_write) (simp_all add: records_ok_def)

lemma records_ok_endAuctionSettles: "records_ok s \<Longrightarrow> records_ok (endAuctionSettles s)"
proof (cases "inFlight s")
  case Nil
  then show "records_ok s \<Longrightarrow> ?thesis" by (simp add: endAuctionSettles_def)
next
  case (Cons e rest)
  assume ok: "records_ok s"
  obtain k a where e: "e = (k, a)" by (cases e)
  from ok Cons e have "record_ok a" and "records_ok (s\<lparr>inFlight := rest\<rparr>)"
    by (auto simp: records_ok_def)
  then have "records_ok (snd (endAuction_write k (Some a) (s\<lparr>inFlight := rest\<rparr>)))"
    by (intro records_ok_endAuction_write) simp_all
  with Cons e show ?thesis by (simp add: endAuctionSettles_def)
qed

lemma getAuction_found:
  "fst (getAuction now auctionId s) = Val a \<Longrightarrow>
     db_get s auctionId = Some a \<and> snd (getAuction now auctionId s) = s"
  by (auto simp: getAuction_def split: option.splits if_splits)

lemma db_get_getAuction [simp]: "db_get (snd (getAuction now auctionId s)) = db_get s"
  by (simp add: getAuction_def split: option.splits)

lemma records_ok_getAuction: "records_ok s \<Longrightarrow> records_ok (snd (getAuction now auctionId s))"
  by (auto simp: getAuction_def records_ok_def split: option.splits)

lemma sorted_wrt_before_last:
  assumes "sorted_wrt P xs" and "y \<in> set xs"
  shows "y = last xs \<or> P y (last xs)"
  using assms
proof (induction xs)
  case Nil
  then show ?case by simp
next
  case (Cons x xs)
  show ?case
  proof (cases "xs = []")
    case True
    with Cons.prems show ?thesis by simp
  next
    case False
    then have "last xs \<in> set xs" by simp
    with Cons False show ?thesis by auto
  qed
qed

text \<open>The record \<open>placeBid\<close> writes after its checks, for a record read from the store.\<close>

lemma appended_record_ok:
  assumes "record_ok a" and "status a = Active"
    and "\<not> num_le amt (toNumber (startPrice a))"
    and "\<not> (bids a \<noteq> [] \<and> num_le amt (toNumber (amount (last (bids a)))))"
  shows "encode_auction (a\<lparr>bids := bids a @ [\<lparr>bidderName = name, amount = Val amt, time = Val (Fin t)\<rparr>]\<rparr>)
           = a\<lparr>bids := bids a @ [\<lparr>bidderName = name, amount = encode_number (Val amt), time = Val (Fin t)\<rparr>]\<rparr>"
    and "record_ok (a\<lparr>bids := bids a @ [\<lparr>bidderName = name, amount = encode_number (Val amt), time = Val (Fin t)\<rparr>]\<rparr>)"
proof -
  let ?nb = "\<lparr>bidderName = name, amount = encode_number (Val amt), time = Val (Fin t)\<rparr>"
  let ?a' = "a\<lparr>bids := bids a @ [?nb]\<rparr>"
  from assms(1) have st: "stored a" and bo: "bids_ok a" by (simp_all add: record_ok_def)
  from st have m: "map encode_bid (bids a) = bids a"
    by (simp add: stored_def stored_encode_bid map_idI)
  from st have w: "encode_number (winningBid a) = winningBid a" by (auto simp: stored_def)
  from st m w show "encode_auction (a\<lparr>bids := bids a @ [\<lparr>bidderName = name, amount = Val amt, time = Val (Fin t)\<rparr>]\<rparr>) = ?a'"
    by (simp add: encode_auction_def encode_bid_def stored_def)
  from st have st': "stored ?a'" by (simp add: stored_def)
  from assms(2) have oc: "outcome_ok ?a'" by (simp add: outcome_ok_def)
  have "bids_ok ?a'" unfolding bids_ok_def
  proof (intro impI)
    assume fin: "\<forall>b \<in> set (bids ?a'). finite_number (amount b)"
    then have fa: "\<forall>b \<in> set (bids a). finite_number (amount b)" by simp
    from fin have "finite_number (encode_number (Val amt))" by simp
    then obtain x where x: "amt = Fin x" by (auto dest: finite_number_encode)
    from bo fa have srt: "sorted_wrt (\<lambda>b b'. num_lt (toNumber (amount b)) (toNumber (amount b'))) (bids a)"
      and abv: "\<forall>b \<in> set (bids a). num_lt (toNumber (startPrice a)) (toNumber (amount b))"
      by (simp_all add: bids_ok_def)
    from st have "toNumber (startPrice a) \<noteq> NaN" by (simp add: stored_def json_number_toNumber)
    with assms(3) x have above: "num_lt (toNumber (startPrice a)) (Fin x)"
      by (simp add: not_num_le_finite)
    have below: "num_lt (toNumber (amount b)) (Fin x)" if b: "b \<in> set (bids a)" for b
    proof -
      from b have ne: "bids a \<noteq> []" by auto
      then have "last (bids a) \<in> set (bids a)" by simp
      with st have "toNumber (amount (last (bids a))) \<noteq> NaN"
        by (simp add: stored_def json_number_toNumber)
      with assms(4) ne x have l: "num_lt (toNumber (amount (last (bids a)))) (Fin x)"
        by (simp add: not_num_le_finite)
      from sorted_wrt_before_last [OF srt b] l show ?thesis
        by (auto intro: num_lt_trans)
    qed
    from srt abv above below x
    show "sorted_wrt (\<lambda>b b'. num_lt (toNumber (amount b)) (toNumber (amount b'))) (bids ?a')
          \<and> (\<forall>b \<in> set (bids ?a'). num_lt (toNumber (startPrice ?a')) (toNumber (amount b)))"
      by (simp add: sorted_wrt_append)
  qed
  with st' oc show "record_ok ?a'" by (simp add: record_ok_def)
qed

lemma records_ok_db_put:
  "records_ok s \<Longrightarrow> record_ok (encode_auction v) \<Longrightarrow> records_ok (db_put k v s)"
  by (simp add: records_ok_def db_get_db_put)

lemma records_ok_placeBid_write:
  assumes "records_ok s" and "\<And>a. found = Val a \<Longrightarrow> record_ok a"
  shows "records_ok (snd (placeBid_write now2 now3 auctionId name amt found s))"
proof (cases "fst (placeBid_write now2 now3 auctionId name amt found s)")
  case (Inl e)
  then have "snd (placeBid_write now2 now3 auctionId name amt found s) = s"
    by (auto simp: placeBid_write_def Let_def split: js.splits if_splits)
  with assms(1) show ?thesis by simp
next
  case (Inr b)
  then obtain a where a: "found = Val a" "status a = Active"
    "\<not> num_le amt (toNumber (startPrice a))"
    "\<not> (bids a \<noteq> [] \<and> num_le amt (toNumber (amount (last (bids a)))))"
    "snd (placeBid_write now2 now3 auctionId name amt found s) =
       db_put auctionId (a\<lparr>bids := bids a @ [\<lparr>bidderName = name, amount = Val amt, time = Val (Fin now3)\<rparr>]\<rparr>) s"
    by (auto simp: placeBid_write_def Let_def split: js.splits if_splits)
  from assms(2) a(1) have "record_ok a" by simp
  from appended_record_ok [OF this a(2,3,4), of name now3] assms(1) show ?thesis
    unfolding a(5) by (simp add: records_ok_db_put)
qed

lemma records_ok_placeBid:
  assumes "records_ok s"
  shows "records_ok (snd (placeBid now1 now2 now3 auctionId name amt s))"
proof -
  obtain found s1 where g: "getAuction now1 auctionId s = (found, s1)" by (cases "getAuction now1 auctionId s")
  from assms have s1: "records_ok s1" using records_ok_getAuction [of s now1 auctionId] g by simp
  have "record_ok a" if "found = Val a" for a
  proof -
    from that g have "db_get s auctionId = Some a" using getAuction_found [of now1 auctionId s a] by simp
    with assms show ?thesis by (simp add: records_ok_def)
  qed
  with s1 show ?thesis by (simp add: placeBid_def g records_ok_placeBid_write)
qed

lemma records_ok_setAuctionTimer [simp]: "records_ok (setAuctionTimer k d s) = records_ok s"
  by (simp add: records_ok_def)

lemma records_ok_createAuction:
  assumes "records_ok s"
  shows "records_ok (snd (createAuction rnd uuid now itm price durationSeconds s))"
proof -
  have "record_ok (encode_auction
      \<lparr>item = itm, startPrice = Val price, startTime = Val (Fin now),
       endTime = Val (num_add rnd (Fin now) (num_mul rnd durationSeconds (Fin 1000))),
       bids = [], status = Active, winner = Undefined, winningBid = Undefined\<rparr>)"
    by (simp add: record_ok_def stored_def bids_ok_def outcome_ok_def encode_auction_def)
  with assms show ?thesis by (simp add: createAuction_def Let_def records_ok_db_put)
qed

lemma records_ok_timerFires: "records_ok s \<Longrightarrow> records_ok (timerFires h s)"
proof -
  assume ok: "records_ok s"
  have "records_ok (clearTimeout h s)" using ok by (simp add: records_ok_def)
  then show ?thesis by (simp add: timerFires_def records_ok_endAuction split: option.splits add: ok)
qed

lemma db_get_restoreEntry [simp]: "db_get (restoreEntry rnd clock entry s) = db_get s"
  by (simp add: restoreEntry_def split: prod.splits)

lemma inFlight_restoreEntry [simp]: "inFlight (restoreEntry rnd clock entry s) = inFlight s"
  by (simp add: restoreEntry_def split: prod.splits)

lemma restoreAuctionTimers_keeps [simp]:
  "db_get (restoreAuctionTimers rnd clock s) = db_get s"
  "inFlight (restoreAuctionTimers rnd clock s) = inFlight s"
proof -
  have "db_get (fold (restoreEntry rnd clock) entries s) = db_get s
        \<and> inFlight (fold (restoreEntry rnd clock) entries s) = inFlight s" for entries
    by (induction entries arbitrary: s) simp_all
  then show "db_get (restoreAuctionTimers rnd clock s) = db_get s"
    and "inFlight (restoreAuctionTimers rnd clock s) = inFlight s"
    by (simp_all add: restoreAuctionTimers_def)
qed

lemma records_ok_init: "records_ok s \<Longrightarrow> records_ok (init rnd clock s)"
  by (simp add: records_ok_def init_def)

lemma reachable_records_ok: "reachable s \<Longrightarrow> records_ok s"
proof (induction rule: reachable.induct)
  case start
  show ?case by (simp add: records_ok_def db_get_def)
qed (simp_all add: records_ok_createAuction records_ok_placeBid records_ok_getAuction
       records_ok_endAuction records_ok_endAuctionSettles records_ok_timerFires records_ok_init)

section \<open>The example states\<close>

lemma reachable_fresh_service: "reachable fresh_service"
  unfolding fresh_service_def by (rule reachable.start)

lemma reachable_vase_service: "reachable vase_service"
  unfolding vase_service_def
  by (rule reachable.create [OF reachable_fresh_service]) (simp add: db_get_def fresh_service_def)

lemma reachable_alice_service: "reachable alice_service"
  unfolding alice_service_def by (rule reachable.bid [OF reachable_vase_service])

lemma db_get_vase_service: "db_get vase_service ''a1'' = Some vase"
  by (simp add: service_ops example_states)

lemma db_get_alice_service:
  "db_get alice_service ''a1'' =
     Some (vase\<lparr>bids := [\<lparr>bidderName = ''Alice'', amount = Val (Fin 15), time = Val (Fin 100)\<rparr>]\<rparr>)"
  by (simp add: service_ops example_states)

section \<open>Ending an auction\<close>

lemma endAuction_not_active:
  "db_get s auctionId = Some a \<Longrightarrow> status a \<noteq> Active \<Longrightarrow> endAuction auctionId s = (Inr a, s)"
  by (simp add: endAuction_def endAuction_write_def)

lemma endAuction_absent:
  "db_get s auctionId = None \<Longrightarrow> endAuction auctionId s = (Inl null_value_error, s)"
  by (simp add: endAuction_def endAuction_write_def)

text \<open>
  C10. When the stored record of an identifier is already Ended, \<open>endAuction\<close> returns
  that record and leaves the service as it was: nothing is appended to the log (no
  \<open>put\<close>), so the record read back is the same in every field, and no timer is touched.
\<close>

theorem endAuction_ended_no_write:
  assumes "db_get s auctionId = Some a" and "status a = Ended"
  shows "endAuction auctionId s = (Inr a, s) \<and> db (snd (endAuction auctionId s)) = db s
           \<and> db_get (snd (endAuction auctionId s)) auctionId = Some a"
  using assms by (simp add: endAuction_not_active)

lemma reachable_ended_service: "reachable ended_service"
  unfolding ended_service_def by (rule reachable.end_auction [OF reachable_alice_service])

lemma db_get_ended_service: "db_get ended_service ''a1'' = Some ended_vase"
  by (simp add: service_ops example_states)

theorem endAuction_ended_no_write_witness:
  "db_get ended_service ''a1'' = Some ended_vase \<and> status ended_vase = Ended
     \<and> endAuction ''a1'' ended_service = (Inr ended_vase, ended_service)"
proof -
  have st: "status ended_vase = Ended" by (simp add: ended_vase_def)
  from endAuction_ended_no_write [OF db_get_ended_service st] db_get_ended_service st
  show ?thesis by simp
qed

text \<open>
  C6. \<open>endAuction\<close> on an identifier with no record does not fail with
  \<open>Error('Auction not found')\<close>: reading \<open>auctionNode.value\<close> of the \<open>null\<close> that
  \<open>db.get\<close> returned raises a TypeError before the test for a missing auction.
\<close>

theorem endAuction_unknown_TypeError:
  "db_get fresh_service ''unknown'' = None
     \<and> fst (endAuction ''unknown'' fresh_service)
         = Inl (TypeError ''Cannot read properties of null (reading 'value')'')
     \<and> fst (endAuction ''unknown'' fresh_service) \<noteq> Inl (Error ''Auction not found'')"
  by (simp add: service_ops example_states)

text \<open>
  C5. In a reachable state, for an identifier with a record, \<open>endAuction\<close> returns a
  record \<open>r\<close>, and a second \<open>endAuction\<close> right after returns the same \<open>r\<close> and changes
  nothing. \<open>r\<close> is the stored record, is Ended, keeps the bids, and names the last bid's
  bidder and amount as winner and winning bid, or \<open>null\<close> and \<open>null\<close> without bids.
\<close>

theorem endAuction_idempotent:
  assumes "reachable s" and "db_get s auctionId = Some a"
  shows "\<exists>r s1. endAuction auctionId s = (Inr r, s1) \<and> endAuction auctionId s1 = (Inr r, s1)
           \<and> db_get s1 auctionId = Some r \<and> status r = Ended \<and> bids r = bids a
           \<and> (if bids r \<noteq> []
               then winner r = Val (bidderName (last (bids r))) \<and> winningBid r = amount (last (bids r))
               else winner r = Null \<and> winningBid r = Null)"
proof -
  from assms have ok: "record_ok a" using reachable_records_ok [of s] by (simp add: records_ok_def)
  show ?thesis
  proof (cases "status a")
    case Ended
    with assms(2) have "endAuction auctionId s = (Inr a, s)" by (simp add: endAuction_not_active)
    moreover from ok Ended have "if bids a \<noteq> []
        then winner a = Val (bidderName (last (bids a))) \<and> winningBid a = amount (last (bids a))
        else winner a = Null \<and> winningBid a = Null"
      by (simp add: record_ok_def outcome_ok_def)
    ultimately show ?thesis using assms(2) Ended by simp
  next
    case Active
    let ?e = "if bids a \<noteq> []
                then a\<lparr>status := Ended, winner := Val (bidderName (last (bids a))),
                       winningBid := amount (last (bids a))\<rparr>
                else a\<lparr>status := Ended, winner := Null, winningBid := Null\<rparr>"
    obtain s1 where s1: "s1 = snd (endAuction auctionId s)" by simp
    from assms(2) Active have first: "endAuction auctionId s = (Inr ?e, s1)"
      unfolding s1 endAuction_def by (subst endAuction_write_cases) simp
    note e = ended_record_ok [OF ok]
    from assms(2) Active e(1) have g: "db_get s1 auctionId = Some ?e"
      unfolding s1 endAuction_def by (simp add: db_get_endAuction_write)
    from e(3) have "status ?e \<noteq> Active" by simp
    with g have again: "endAuction auctionId s1 = (Inr ?e, s1)" by (rule endAuction_not_active)
    have "if bids ?e \<noteq> []
        then winner ?e = Val (bidderName (last (bids ?e))) \<and> winningBid ?e = amount (last (bids ?e))
        else winner ?e = Null \<and> winningBid ?e = Null"
      by simp
    with first again g e(3,4) show ?thesis by blast
  qed
qed

theorem endAuction_idempotent_witness:
  "reachable alice_service
     \<and> endAuction ''a1'' alice_service = (Inr ended_vase, ended_service)
     \<and> endAuction ''a1'' ended_service = (Inr ended_vase, ended_service)
     \<and> winner ended_vase = Val ''Alice'' \<and> winningBid ended_vase = Val (Fin 15)"
proof -
  from endAuction_idempotent [OF reachable_alice_service db_get_alice_service]
  obtain r s1 where r: "endAuction ''a1'' alice_service = (Inr r, s1)" "endAuction ''a1'' s1 = (Inr r, s1)"
    "db_get s1 ''a1'' = Some r" by blast
  from r(1) have s1: "s1 = ended_service" by (simp add: ended_service_def)
  with r(3) have "r = ended_vase" by (simp add: db_get_ended_service)
  with r s1 reachable_alice_service show ?thesis by (simp add: ended_vase_def)
qed

section \<open>Reading an auction\<close>

lemma getAuction_expired:
  assumes "db_get s auctionId = Some a" and "status a = Active"
    and "num_lt (toNumber (endTime a)) (Fin now)"
  shows "getAuction now auctionId s = (Undefined, s\<lparr>inFlight := inFlight s @ [(auctionId, a)]\<rparr>)"
  using assms by (simp add: getAuction_def)

lemma getAuction_current:
  assumes "db_get s auctionId = Some a"
    and "status a = Ended \<or> \<not> num_lt (toNumber (endTime a)) (Fin now)"
  shows "getAuction now auctionId s = (Val a, s)"
  using assms by (auto simp: getAuction_def)

lemma getAuction_absent: "db_get s auctionId = None \<Longrightarrow> getAuction now auctionId s = (Null, s)"
  by (simp add: getAuction_def)

text \<open>
  C1. On a stored record that is Active with \<open>endTime\<close> before the current time,
  \<open>getAuction\<close> does start the End transition, and the record is Ended once that call
  has run; but what \<open>getAuction\<close> returns is \<open>undefined\<close>, not the Ended record: here
  for the vase auction, whose deadline is 1000, read at time 2000.
\<close>

theorem getAuction_expired_returns_undefined:
  "db_get vase_service ''a1'' = Some vase \<and> status vase = Active \<and> endTime vase = Val (Fin 1000)
     \<and> fst (getAuction 2000 ''a1'' vase_service) = Undefined
     \<and> inFlight (snd (getAuction 2000 ''a1'' vase_service)) = [(''a1'', vase)]
     \<and> db_get (endAuctionSettles (snd (getAuction 2000 ''a1'' vase_service))) ''a1''
         = Some (vase\<lparr>status := Ended, winner := Null, winningBid := Null\<rparr>)"
  by (simp add: service_ops example_states)

section \<open>Placing a bid\<close>

text \<open>What \<open>placeBid\<close> does, by the stored record and the three clock readings.\<close>

lemma placeBid_cases:
  "placeBid now1 now2 now3 auctionId name amt s =
     (case db_get s auctionId of
        None \<Rightarrow> (Inl (Error ''Auction not found''), s)
      | Some a \<Rightarrow>
          if status a \<noteq> Active then (Inl (Error ''Auction is not active''), s)
          else if num_lt (toNumber (endTime a)) (Fin now1)
            then (Inl (Error ''Auction not found''), s\<lparr>inFlight := inFlight s @ [(auctionId, a)]\<rparr>)
          else if num_lt (toNumber (endTime a)) (Fin now2) then (Inl (Error ''Auction has ended''), s)
          else if num_le amt (toNumber (startPrice a)) then (Inl (Error ''Bid too low''), s)
          else if bids a \<noteq> [] \<and> num_le amt (toNumber (amount (last (bids a))))
            then (Inl (Error ''Bid must be higher than the current highest bid''), s)
          else (Inr True,
                db_put auctionId
                  (a\<lparr>bids := bids a @ [\<lparr>bidderName = name, amount = Val amt, time = Val (Fin now3)\<rparr>]\<rparr>) s))"
  by (simp add: placeBid_def getAuction_def placeBid_write_def Let_def split: option.splits)

text \<open>
  C4. A bid on a record that exists and is Active, made after its deadline, is refused
  with \<open>Error('Auction not found')\<close>, not with \<open>Error('Auction has ended')\<close>: the
  \<open>undefined\<close> that \<open>getAuction\<close> returns for an expired record is taken for a missing
  auction. Here a bid of 15 on the vase auction (start price 10, deadline 1000) at time 2000.
\<close>

theorem placeBid_expired_not_found:
  "db_get vase_service ''a1'' = Some vase \<and> status vase = Active \<and> endTime vase = Val (Fin 1000)
     \<and> startPrice vase = Val (Fin 10) \<and> bids vase = []
     \<and> fst (placeBid 2000 2000 2000 ''a1'' ''Bob'' (Fin 15) vase_service) = Inl (Error ''Auction not found'')"
  by (simp add: service_ops example_states)

section \<open>Bids in reachable states\<close>








section \<open>Creating an auction\<close>

text \<open>
  C7, as the code has it. \<open>createAuction\<close> tests none of its parameters: whatever the
  item, the start price and the duration are, it puts the Active record with empty bids
  and \<open>endTime = now + durationSeconds * 1000\<close> under the new identifier, schedules the
  timer for \<open>durationSeconds * 1000\<close> and returns the identifier. What the store then holds
  is that record as JSON keeps it: the item as received, the start price and the end time
  as computed when they are finite, \<open>null\<close> in their place when they are not. It has no
  failing branch.
\<close>

theorem createAuction_persists_unvalidated:
  "fst (createAuction rnd uuid now itm price durationSeconds s) = uuid
     \<and> db_get (snd (createAuction rnd uuid now itm price durationSeconds s)) uuid
         = Some \<lparr>item = itm, startPrice = encode_number (Val price), startTime = Val (Fin now),
                  endTime = encode_number
                    (Val (num_add rnd (Fin now) (num_mul rnd durationSeconds (Fin 1000)))),
                  bids = [], status = Active, winner = Undefined, winningBid = Undefined\<rparr>
     \<and> pending (snd (createAuction rnd uuid now itm price durationSeconds s))
         = pending s @ [\<lparr>handle = nextHandle s, callbackId = uuid,
                          delay = num_mul rnd durationSeconds (Fin 1000)\<rparr>]
     \<and> auctionTimers (snd (createAuction rnd uuid now itm price durationSeconds s)) uuid = Some (nextHandle s)"
  by (simp add: createAuction_def Let_def db_get_db_put encode_auction_def)
    (simp add: setAuctionTimer_def db_put_def)

theorem createAuction_persists_unvalidated_witness:
  "db_get (snd (createAuction exact ''a1'' 0 ''Vase'' (Fin 10) (Fin 1) fresh_service)) ''a1'' = Some vase
   \<and> db_get (snd (createAuction exact ''a3'' 0 ''Vase'' PosInf PosInf fresh_service)) ''a3''
       = Some (vase\<lparr>startPrice := Null, endTime := Null\<rparr>)"
  using createAuction_persists_unvalidated [of exact "''a1''" 0 "''Vase''" "Fin 10" "Fin 1" fresh_service]
    createAuction_persists_unvalidated [of exact "''a3''" 0 "''Vase''" PosInf PosInf fresh_service]
  by (simp add: vase_def exact_def inf_times_def)

text \<open>
  An empty item, a negative start price and a duration of zero seconds are stored as they
  come.
\<close>

theorem createAuction_malformed_counterexample:
  "fst (createAuction exact ''a2'' 50 [] (Fin (- 5)) (Fin 0) fresh_service) = ''a2''
     \<and> db_get (snd (createAuction exact ''a2'' 50 [] (Fin (- 5)) (Fin 0) fresh_service)) ''a2''
         = Some \<lparr>item = [], startPrice = Val (Fin (- 5)), startTime = Val (Fin 50),
                  endTime = Val (Fin 50), bids = [], status = Active, winner = Undefined,
                  winningBid = Undefined\<rparr>"
  by (simp add: service_ops example_states)

section \<open>Dispatching a request\<close>

text \<open>
  C9. For every inbound frame, \<open>handleMessage\<close> writes exactly one reply, with the
  frame's \<open>id\<close>, and keeps the table of handlers. With no handler under the method name the
  reply carries the error \<open>Method not found\<close> and nothing else happens. With a handler, it
  is run on the parameters; when it resolves with \<open>result\<close> the reply carries that result,
  and when it rejects with \<open>error\<close> the reply carries \<open>error.message\<close>: the rejection ends
  there.
\<close>

theorem handleMessage_replies:
  "handlers (fst (handleMessage msg r s)) = handlers r
     \<and> (handlers r (methodName msg) = None \<longrightarrow>
          handleMessage msg r s
            = (r\<lparr>written := written r @ [\<lparr>reply_id = request_id msg, body = Failure ''Method not found''\<rparr>]\<rparr>, s))
     \<and> (\<forall>h result s'. handlers r (methodName msg) = Some h \<and> h (params msg) s = (Inr result, s') \<longrightarrow>
          handleMessage msg r s
            = (r\<lparr>written := written r @ [\<lparr>reply_id = request_id msg, body = Result result\<rparr>]\<rparr>, s'))
     \<and> (\<forall>h error s'. handlers r (methodName msg) = Some h \<and> h (params msg) s = (Inl error, s') \<longrightarrow>
          handleMessage msg r s
            = (r\<lparr>written := written r @ [\<lparr>reply_id = request_id msg, body = Failure (message error)\<rparr>]\<rparr>, s'))"
  by (auto simp: handleMessage_def sendResponse_def split: option.splits sum.splits prod.splits)

theorem handleMessage_replies_witness:
  "handleMessage \<lparr>methodName = ''echo'', params = [''ab'', ''c''], request_id = ''7''\<rparr> echo_rpc 0
     = (echo_rpc\<lparr>written := [\<lparr>reply_id = ''7'', body = Result ''abc''\<rparr>]\<rparr>, 1)
   \<and> handleMessage \<lparr>methodName = ''fail'', params = [], request_id = ''8''\<rparr> echo_rpc 0
     = (echo_rpc\<lparr>written := [\<lparr>reply_id = ''8'', body = Failure ''boom''\<rparr>]\<rparr>, 1)
   \<and> handleMessage \<lparr>methodName = ''nope'', params = [], request_id = ''9''\<rparr> echo_rpc 0
     = (echo_rpc\<lparr>written := [\<lparr>reply_id = ''9'', body = Failure ''Method not found''\<rparr>]\<rparr>, 0)"
proof -
  have w: "written echo_rpc = []" by (simp add: echo_rpc_def respond_def)
  have e: "handlers echo_rpc ''echo'' = Some (\<lambda>ps n. (Inr (concat ps), Suc n))"
    and f: "handlers echo_rpc ''fail'' = Some (\<lambda>ps n. (Inl (Error ''boom''), Suc n))"
    and n: "handlers echo_rpc ''nope'' = None"
    by (simp_all add: echo_rpc_def respond_def)
  from handleMessage_replies
    [of "\<lparr>methodName = ''echo'', params = [''ab'', ''c''], request_id = ''7''\<rparr>" echo_rpc 0]
    e w
  have 1: "handleMessage \<lparr>methodName = ''echo'', params = [''ab'', ''c''], request_id = ''7''\<rparr> echo_rpc 0
     = (echo_rpc\<lparr>written := [\<lparr>reply_id = ''7'', body = Result ''abc''\<rparr>]\<rparr>, 1)"
    by simp
  from handleMessage_replies
    [of "\<lparr>methodName = ''fail'', params = [], request_id = ''8''\<rparr>" echo_rpc 0]
    f w
  have 2: "handleMessage \<lparr>methodName = ''fail'', params = [], request_id = ''8''\<rparr> echo_rpc 0
     = (echo_rpc\<lparr>written := [\<lparr>reply_id = ''8'', body = Failure ''boom''\<rparr>]\<rparr>, 1)"
    by simp
  from handleMessage_replies
    [of "\<lparr>methodName = ''nope'', params = [], request_id = ''9''\<rparr>" echo_rpc 0]
    n w
  have 3: "handleMessage \<lparr>methodName = ''nope'', params = [], request_id = ''9''\<rparr> echo_rpc 0
     = (echo_rpc\<lparr>written := [\<lparr>reply_id = ''9'', body = Failure ''Method not found''\<rparr>]\<rparr>, 0)"
    by simp
  from 1 2 3 show ?thesis by simp
qed

section \<open>Timers\<close>

lemma pendingFor_setAuctionTimer:
  "pendingFor k (setAuctionTimer auctionId d s) =
     pendingFor k s @ (if k = auctionId then [\<lparr>handle = nextHandle s, callbackId = auctionId, delay = d\<rparr>] else [])"
  by (simp add: pendingFor_def setAuctionTimer_def)

lemma timers_ok_shrink:
  assumes "timers_ok s" and "pending s' = filter P (pending s)"
    and "\<And>k. db_get s k \<noteq> None \<Longrightarrow> db_get s' k \<noteq> None"
  shows "timers_ok s'"
proof -
  have "length (pendingFor k s') \<le> 1" for k
  proof -
    have "pendingFor k s' = filter P (pendingFor k s)"
      by (simp add: pendingFor_def assms(2) conj_commute)
    then have "length (pendingFor k s') \<le> length (pendingFor k s)" by simp
    also from assms(1) have "\<dots> \<le> 1" by (simp add: timers_ok_def)
    finally show ?thesis .
  qed
  moreover have "db_get s' (callbackId t) \<noteq> None" if "t \<in> set (pending s')" for t
  proof -
    from that assms(2) have "t \<in> set (pending s)" by simp
    with assms(1) have "db_get s (callbackId t) \<noteq> None" by (simp add: timers_ok_def)
    then show ?thesis by (rule assms(3))
  qed
  ultimately show ?thesis by (simp add: timers_ok_def)
qed

lemma pending_endAuction_write:
  "\<exists>P. pending (snd (endAuction_write auctionId auctionNode s)) = filter P (pending s)"
proof (cases "\<exists>a timer. auctionNode = Some a \<and> status a = Active \<and> auctionTimers s auctionId = Some timer")
  case True
  then obtain a timer where "auctionNode = Some a" "status a = Active"
    "auctionTimers s auctionId = Some timer" by blast
  then have "pending (snd (endAuction_write auctionId auctionNode s)) = filter (\<lambda>t. handle t \<noteq> timer) (pending s)"
    by (simp add: endAuction_write_def Let_def db_put_def clearTimeout_def)
  then show ?thesis by blast
next
  case False
  then have "pending (snd (endAuction_write auctionId auctionNode s)) = filter (\<lambda>t. True) (pending s)"
    by (auto simp: endAuction_write_def Let_def db_put_def split: option.splits)
  then show ?thesis by blast
qed

lemma db_get_endAuction_write_kept:
  "db_get s k \<noteq> None \<Longrightarrow> db_get (snd (endAuction_write auctionId auctionNode s)) k \<noteq> None"
  by (auto simp: db_get_endAuction_write split: option.splits)

lemma timers_ok_endAuction_write:
  "timers_ok s \<Longrightarrow> timers_ok (snd (endAuction_write auctionId auctionNode s))"
proof -
  assume ok: "timers_ok s"
  obtain P where "pending (snd (endAuction_write auctionId auctionNode s)) = filter P (pending s)"
    using pending_endAuction_write by blast
  from ok this show ?thesis by (rule timers_ok_shrink) (rule db_get_endAuction_write_kept)
qed

lemma timers_ok_endAuction: "timers_ok s \<Longrightarrow> timers_ok (snd (endAuction auctionId s))"
  by (simp add: endAuction_def timers_ok_endAuction_write)

lemma timers_ok_inFlight [simp]: "timers_ok (s\<lparr>inFlight := f\<rparr>) = timers_ok s"
  by (simp add: timers_ok_def pendingFor_def)

lemma timers_ok_endAuctionSettles: "timers_ok s \<Longrightarrow> timers_ok (endAuctionSettles s)"
  by (simp add: endAuctionSettles_def timers_ok_endAuction_write split: list.splits prod.splits)

lemma timers_ok_getAuction: "timers_ok s \<Longrightarrow> timers_ok (snd (getAuction now auctionId s))"
  by (simp add: getAuction_def split: option.splits)

lemma timers_ok_db_put: "timers_ok s \<Longrightarrow> timers_ok (db_put k v s)"
proof (rule timers_ok_shrink [where P = "\<lambda>t. True"])
  show "pending (db_put k v s) = filter (\<lambda>t. True) (pending s)" by (simp add: db_put_def)
qed (simp_all add: db_get_db_put)

lemma timers_ok_placeBid_write:
  "timers_ok s \<Longrightarrow> timers_ok (snd (placeBid_write now2 now3 auctionId name amt found s))"
  by (simp add: placeBid_write_def Let_def timers_ok_db_put split: js.splits)

lemma timers_ok_placeBid:
  assumes "timers_ok s"
  shows "timers_ok (snd (placeBid now1 now2 now3 auctionId name amt s))"
proof -
  obtain found s1 where g: "getAuction now1 auctionId s = (found, s1)" by (cases "getAuction now1 auctionId s")
  from assms have "timers_ok s1" using timers_ok_getAuction [of s now1 auctionId] g by simp
  then show ?thesis by (simp add: placeBid_def g timers_ok_placeBid_write)
qed

lemma timers_ok_createAuction:
  assumes "timers_ok s" and "db_get s uuid = None"
  shows "timers_ok (snd (createAuction rnd uuid now itm price durationSeconds s))"
proof -
  let ?s' = "snd (createAuction rnd uuid now itm price durationSeconds s)"
  have none: "pendingFor uuid s = []"
  proof -
    from assms have "\<forall>t \<in> set (pending s). callbackId t \<noteq> uuid" by (auto simp: timers_ok_def)
    then show ?thesis by (simp add: pendingFor_def filter_empty_conv)
  qed
  have pf: "pendingFor k ?s' = pendingFor k s @
      (if k = uuid then [\<lparr>handle = nextHandle s, callbackId = uuid,
                           delay = num_mul rnd durationSeconds (Fin 1000)\<rparr>] else [])" for k
    by (simp add: createAuction_def Let_def pendingFor_def setAuctionTimer_def db_put_def)
  have "length (pendingFor k ?s') \<le> 1" for k
    using assms(1) none by (simp add: pf timers_ok_def)
  moreover have "db_get ?s' (callbackId t) \<noteq> None" if "t \<in> set (pending ?s')" for t
  proof -
    have g: "db_get ?s' key = (if key = uuid then db_get ?s' uuid else db_get s key)" for key
      by (simp add: createAuction_def Let_def db_get_db_put)
    have u: "db_get ?s' uuid \<noteq> None" by (simp add: createAuction_def Let_def db_get_db_put)
    from that have "t \<in> set (pending s) \<or> callbackId t = uuid"
      by (auto simp: createAuction_def Let_def setAuctionTimer_def db_put_def)
    with assms(1) u show ?thesis by (subst g) (auto simp: timers_ok_def)
  qed
  ultimately show ?thesis by (simp add: timers_ok_def)
qed

lemma timers_ok_timerFires: "timers_ok s \<Longrightarrow> timers_ok (timerFires h s)"
proof -
  assume ok: "timers_ok s"
  have "timers_ok (clearTimeout h s)"
    by (rule timers_ok_shrink [OF ok, where P = "\<lambda>t. handle t \<noteq> h"]) (simp_all add: clearTimeout_def)
  with ok show ?thesis by (simp add: timerFires_def timers_ok_endAuction split: option.splits)
qed

lemma createReadStream_keys:
  "map fst (createReadStream s) = filter (\<lambda>key. db_get s key \<noteq> None) (sort (remdups (map fst (db s))))"
proof -
  have "map fst (List.map_filter (\<lambda>key. map_option (Pair key) (g key)) keys) = filter (\<lambda>key. g key \<noteq> None) keys"
    for g :: "auctionId \<Rightarrow> auction option" and keys
    by (induction keys) (auto simp: List.map_filter_simps split: option.splits)
  then show ?thesis by (simp add: createReadStream_def)
qed

lemma distinct_createReadStream: "distinct (map fst (createReadStream s))"
  by (simp add: createReadStream_keys)

lemma createReadStream_stored: "(key, a) \<in> set (createReadStream s) \<Longrightarrow> db_get s key = Some a"
  by (auto simp: createReadStream_def List.map_filter_def)

lemma pendingFor_restoreEntry:
  "length (pendingFor k (restoreEntry rnd clock entry s)) \<le> length (pendingFor k s) + (if k = fst entry then 1 else 0)"
  by (simp add: restoreEntry_def pendingFor_setAuctionTimer split: prod.splits)

lemma pending_restoreEntry:
  "t \<in> set (pending (restoreEntry rnd clock entry s)) \<Longrightarrow> t \<in> set (pending s) \<or> callbackId t = fst entry"
  by (auto simp: restoreEntry_def setAuctionTimer_def split: prod.splits if_splits)

lemma pendingFor_fold_restoreEntry:
  assumes "distinct (map fst entries)"
  shows "length (pendingFor k (fold (restoreEntry rnd clock) entries s))
           \<le> length (pendingFor k s) + (if k \<in> fst ` set entries then 1 else 0)"
  using assms
proof (induction entries arbitrary: s)
  case Nil
  show ?case by simp
next
  case (Cons e es)
  from Cons.prems have d: "distinct (map fst es)" "fst e \<notin> fst ` set es" by simp_all
  have "length (pendingFor k (fold (restoreEntry rnd clock) (e # es) s))
          \<le> length (pendingFor k (restoreEntry rnd clock e s)) + (if k \<in> fst ` set es then 1 else 0)"
    using Cons.IH [OF d(1), of "restoreEntry rnd clock e s"] by simp
  also have "\<dots> \<le> length (pendingFor k s) + (if k = fst e then 1 else 0) + (if k \<in> fst ` set es then 1 else 0)"
    using pendingFor_restoreEntry [of k rnd clock e s] by simp
  also have "\<dots> \<le> length (pendingFor k s) + (if k \<in> fst ` set (e # es) then 1 else 0)"
    using d(2) by auto
  finally show ?case .
qed

lemma pending_fold_restoreEntry:
  "t \<in> set (pending (fold (restoreEntry rnd clock) entries s)) \<Longrightarrow>
     t \<in> set (pending s) \<or> callbackId t \<in> fst ` set entries"
proof (induction entries arbitrary: s)
  case Nil
  then show ?case by simp
next
  case (Cons e es)
  from Cons.prems have "t \<in> set (pending (fold (restoreEntry rnd clock) es (restoreEntry rnd clock e s)))" by simp
  from Cons.IH [OF this] pending_restoreEntry [of t rnd clock e s] show ?case by auto
qed

lemma timers_ok_init: "timers_ok (init rnd clock s)"
proof -
  let ?s0 = "s\<lparr>auctionTimers := Map.empty, pending := [], inFlight := []\<rparr>"
  have i: "init rnd clock s = fold (restoreEntry rnd clock) (createReadStream ?s0) ?s0"
    by (simp add: init_def restoreAuctionTimers_def)
  have "length (pendingFor k (init rnd clock s)) \<le> 1" for k
    using pendingFor_fold_restoreEntry [OF distinct_createReadStream, of k rnd clock ?s0 ?s0]
    unfolding i by (simp add: pendingFor_def split: if_splits)
  moreover have "db_get (init rnd clock s) (callbackId t) \<noteq> None" if "t \<in> set (pending (init rnd clock s))" for t
  proof -
    from that have "callbackId t \<in> fst ` set (createReadStream ?s0)"
      unfolding i by (auto dest: pending_fold_restoreEntry)
    then have "db_get ?s0 (callbackId t) \<noteq> None" by (auto dest: createReadStream_stored)
    then show ?thesis by (simp add: init_def)
  qed
  ultimately show ?thesis by (simp add: timers_ok_def)
qed

lemma reachable_timers_ok: "reachable s \<Longrightarrow> timers_ok s"
proof (induction rule: reachable.induct)
  case start
  show ?case by (simp add: timers_ok_def pendingFor_def)
qed (simp_all add: timers_ok_createAuction timers_ok_placeBid timers_ok_getAuction
       timers_ok_endAuction timers_ok_endAuctionSettles timers_ok_timerFires timers_ok_init)

text \<open>
  C8, as the code has it. \<open>setAuctionTimer\<close> schedules a new callback for the identifier,
  after whatever is already scheduled for it, and stores the new handle under the
  identifier in \<open>auctionTimers\<close>, where it takes the place of an earlier handle; the
  other identifiers keep their callbacks. In a reachable state no identifier has two
  scheduled callbacks.
\<close>

theorem setAuctionTimer_schedules:
  "pendingFor auctionId (setAuctionTimer auctionId d s)
       = pendingFor auctionId s @ [\<lparr>handle = nextHandle s, callbackId = auctionId, delay = d\<rparr>]
     \<and> auctionTimers (setAuctionTimer auctionId d s) auctionId = Some (nextHandle s)
     \<and> (k \<noteq> auctionId \<longrightarrow> pendingFor k (setAuctionTimer auctionId d s) = pendingFor k s)
     \<and> (reachable s \<longrightarrow> length (pendingFor k s) \<le> 1)"
proof -
  have "auctionTimers (setAuctionTimer auctionId d s) auctionId = Some (nextHandle s)"
    by (simp add: setAuctionTimer_def)
  moreover have "reachable s \<longrightarrow> length (pendingFor k s) \<le> 1"
    using reachable_timers_ok [of s] by (simp add: timers_ok_def)
  ultimately show ?thesis by (simp add: pendingFor_setAuctionTimer)
qed

theorem setAuctionTimer_schedules_witness:
  "reachable vase_service \<and> length (pendingFor ''a1'' vase_service) \<le> 1
     \<and> pendingFor ''a1'' vase_service = [\<lparr>handle = 0, callbackId = ''a1'', delay = Fin 1000\<rparr>]
     \<and> pendingFor ''b2'' (setAuctionTimer ''b2'' (Fin 700) vase_service)
         = [\<lparr>handle = 1, callbackId = ''b2'', delay = Fin 700\<rparr>]
     \<and> pendingFor ''a1'' (setAuctionTimer ''b2'' (Fin 700) vase_service) = pendingFor ''a1'' vase_service"
proof -
  have p: "pendingFor ''a1'' vase_service = [\<lparr>handle = 0, callbackId = ''a1'', delay = Fin 1000\<rparr>]"
    and q: "pendingFor ''b2'' vase_service = []" and n: "nextHandle vase_service = 1"
    by (simp_all add: pendingFor_def service_ops example_states)
  from setAuctionTimer_schedules [of "''b2''" "Fin 700" vase_service "''a1''"] reachable_vase_service p q n
  show ?thesis by simp
qed

text \<open>
  Armed a second time for the same identifier, the timer of the first call stays
  scheduled next to the new one: two callbacks will end the auction \<open>a1\<close>.
\<close>

theorem setAuctionTimer_twice_counterexample:
  "pendingFor ''a1'' (setAuctionTimer ''a1'' (Fin 500) vase_service)
     = [\<lparr>handle = 0, callbackId = ''a1'', delay = Fin 1000\<rparr>,
        \<lparr>handle = 1, callbackId = ''a1'', delay = Fin 500\<rparr>]
   \<and> auctionTimers (setAuctionTimer ''a1'' (Fin 500) vase_service) ''a1'' = Some 1"
  by (simp add: pendingFor_def service_ops example_states)

section \<open>Two bids on one auction\<close>

lemma not_num_le_bigger: "\<not> num_le (Fin x) c \<Longrightarrow> x < y \<Longrightarrow> \<not> num_le (Fin y) c"
  by (cases c) simp_all

text \<open>
  A write that follows a read made in another state \<open>s0\<close> still stores a record that is
  as the invariant wants it: the checks are made on the record that is written.
\<close>

lemma records_ok_placeBid_write_late:
  assumes "records_ok s0" and "records_ok s"
  shows "records_ok (snd (placeBid_write now2 now3 auctionId name amt (fst (getAuction now1 auctionId s0)) s))"
proof (rule records_ok_placeBid_write [OF assms(2)])
  fix a
  assume "fst (getAuction now1 auctionId s0) = Val a"
  then have "db_get s0 auctionId = Some a" by (simp add: getAuction_found)
  with assms(1) show "record_ok a" by (simp add: records_ok_def)
qed

text \<open>
  C2, as the code has it. Two \<open>placeBid\<close> calls on one Active, unexpired auction of a
  reachable state, with finite amounts \<open>A < B\<close> both above the start price and the last
  bid, each call running to its end before the other starts: in the order \<open>A\<close>, \<open>B\<close>
  both bids are accepted and the record ends with the two of them; in the order \<open>B\<close>,
  \<open>A\<close> the first is accepted and the second refused as not higher than the highest bid,
  the record ending with \<open>B\<close>. No accepted bid is missing from the stored record.
\<close>

theorem placeBid_one_after_the_other:
  assumes "reachable s" and "db_get s auctionId = Some a" and "status a = Active"
    and "\<not> num_lt (toNumber (endTime a)) (Fin t1)" and "\<not> num_lt (toNumber (endTime a)) (Fin t2)"
    and "\<not> num_lt (toNumber (endTime a)) (Fin u1)" and "\<not> num_lt (toNumber (endTime a)) (Fin u2)"
    and "\<not> num_le (Fin A) (toNumber (startPrice a))"
    and "bids a \<noteq> [] \<longrightarrow> \<not> num_le (Fin A) (toNumber (amount (last (bids a))))"
    and "A < B"
  shows "placeBid t1 t2 t3 auctionId nameA (Fin A) s
           = (Inr True,
              db_put auctionId
                (a\<lparr>bids := bids a @ [\<lparr>bidderName = nameA, amount = Val (Fin A), time = Val (Fin t3)\<rparr>]\<rparr>) s)
     \<and> db_get (snd (placeBid t1 t2 t3 auctionId nameA (Fin A) s)) auctionId
         = Some (a\<lparr>bids := bids a @ [\<lparr>bidderName = nameA, amount = Val (Fin A), time = Val (Fin t3)\<rparr>]\<rparr>)
     \<and> fst (placeBid u1 u2 u3 auctionId nameB (Fin B) (snd (placeBid t1 t2 t3 auctionId nameA (Fin A) s)))
         = Inr True
     \<and> db_get (snd (placeBid u1 u2 u3 auctionId nameB (Fin B)
                      (snd (placeBid t1 t2 t3 auctionId nameA (Fin A) s)))) auctionId
         = Some (a\<lparr>bids := bids a @ [\<lparr>bidderName = nameA, amount = Val (Fin A), time = Val (Fin t3)\<rparr>,
                                      \<lparr>bidderName = nameB, amount = Val (Fin B), time = Val (Fin u3)\<rparr>]\<rparr>)
     \<and> placeBid u1 u2 u3 auctionId nameB (Fin B) s
           = (Inr True,
              db_put auctionId
                (a\<lparr>bids := bids a @ [\<lparr>bidderName = nameB, amount = Val (Fin B), time = Val (Fin u3)\<rparr>]\<rparr>) s)
     \<and> placeBid t1 t2 t3 auctionId nameA (Fin A) (snd (placeBid u1 u2 u3 auctionId nameB (Fin B) s))
         = (Inl (Error ''Bid must be higher than the current highest bid''),
            snd (placeBid u1 u2 u3 auctionId nameB (Fin B) s))
     \<and> db_get (snd (placeBid u1 u2 u3 auctionId nameB (Fin B) s)) auctionId
         = Some (a\<lparr>bids := bids a @ [\<lparr>bidderName = nameB, amount = Val (Fin B), time = Val (Fin u3)\<rparr>]\<rparr>)"
proof -
  let ?bidA = "\<lparr>bidderName = nameA, amount = Val (Fin A), time = Val (Fin t3)\<rparr>"
  let ?bidB = "\<lparr>bidderName = nameB, amount = Val (Fin B), time = Val (Fin u3)\<rparr>"
  let ?aA = "a\<lparr>bids := bids a @ [?bidA]\<rparr>"
  let ?aB = "a\<lparr>bids := bids a @ [?bidB]\<rparr>"
  let ?sA = "db_put auctionId ?aA s"
  let ?sB = "db_put auctionId ?aB s"
  from assms(1,2) have ok: "record_ok a" using reachable_records_ok [of s] by (simp add: records_ok_def)
  from assms have B: "\<not> num_le (Fin B) (toNumber (startPrice a))"
    "bids a \<noteq> [] \<longrightarrow> \<not> num_le (Fin B) (toNumber (amount (last (bids a))))"
    by (auto dest: not_num_le_bigger)
  from assms(9) have A9: "\<not> (bids a \<noteq> [] \<and> num_le (Fin A) (toNumber (amount (last (bids a)))))"
    by blast
  from B(2) have B9: "\<not> (bids a \<noteq> [] \<and> num_le (Fin B) (toNumber (amount (last (bids a)))))"
    by blast
  have encA: "encode_auction ?aA = ?aA"
    using appended_record_ok(1) [OF ok assms(3) assms(8) A9, of nameA t3] by simp
  have encB: "encode_auction ?aB = ?aB"
    using appended_record_ok(1) [OF ok assms(3) B(1) B9, of nameB u3] by simp
  have 1: "placeBid t1 t2 t3 auctionId nameA (Fin A) s = (Inr True, ?sA)"
    using assms A9 by (auto simp: placeBid_cases)
  have gA: "db_get ?sA auctionId = Some ?aA" by (simp add: db_get_db_put encA)
  have okA: "record_ok ?aA"
    using appended_record_ok(2) [OF ok assms(3) assms(8) A9, of nameA t3] by simp
  have 2: "placeBid u1 u2 u3 auctionId nameB (Fin B) ?sA
             = (Inr True, db_put auctionId (?aA\<lparr>bids := bids ?aA @ [?bidB]\<rparr>) ?sA)"
    using assms B by (auto simp: placeBid_cases gA)
  have encAB: "encode_auction (a\<lparr>bids := bids a @ [?bidA, ?bidB]\<rparr>) = a\<lparr>bids := bids a @ [?bidA, ?bidB]\<rparr>"
    using appended_record_ok(1) [OF okA, of "Fin B" nameB u3] assms(3,10) B(1) by simp
  have gAB: "db_get (db_put auctionId (?aA\<lparr>bids := bids ?aA @ [?bidB]\<rparr>) ?sA) auctionId
               = Some (a\<lparr>bids := bids a @ [?bidA, ?bidB]\<rparr>)"
    by (simp add: db_get_db_put encAB)
  have 3: "placeBid u1 u2 u3 auctionId nameB (Fin B) s = (Inr True, ?sB)"
    using assms B by (auto simp: placeBid_cases)
  have gB: "db_get ?sB auctionId = Some ?aB" by (simp add: db_get_db_put encB)
  have 4: "placeBid t1 t2 t3 auctionId nameA (Fin A) ?sB
             = (Inl (Error ''Bid must be higher than the current highest bid''), ?sB)"
    using assms by (auto simp: placeBid_cases gB)
  from 1 2 3 4 gA gAB gB show ?thesis by simp
qed

theorem placeBid_one_after_the_other_witness:
  "reachable vase_service
   \<and> db_get (snd (placeBid 300 300 300 ''a1'' ''Bob'' (Fin 20)
                   (snd (placeBid 300 300 300 ''a1'' ''Alice'' (Fin 15) vase_service)))) ''a1''
     = Some (vase\<lparr>bids := [\<lparr>bidderName = ''Alice'', amount = Val (Fin 15), time = Val (Fin 300)\<rparr>,
                          \<lparr>bidderName = ''Bob'', amount = Val (Fin 20), time = Val (Fin 300)\<rparr>]\<rparr>)
   \<and> fst (placeBid 300 300 300 ''a1'' ''Bob'' (Fin 20) vase_service) = Inr True
   \<and> fst (placeBid 300 300 300 ''a1'' ''Alice'' (Fin 15)
            (snd (placeBid 300 300 300 ''a1'' ''Bob'' (Fin 20) vase_service)))
       = Inl (Error ''Bid must be higher than the current highest bid'')
   \<and> db_get (snd (placeBid 300 300 300 ''a1'' ''Bob'' (Fin 20) vase_service)) ''a1''
     = Some (vase\<lparr>bids := [\<lparr>bidderName = ''Bob'', amount = Val (Fin 20), time = Val (Fin 300)\<rparr>]\<rparr>)"
proof -
  have h: "status vase = Active" "\<not> num_lt (toNumber (endTime vase)) (Fin 300)"
    "\<not> num_le (Fin 15) (toNumber (startPrice vase))"
    "bids vase \<noteq> [] \<longrightarrow> \<not> num_le (Fin 15) (toNumber (amount (last (bids vase))))" "(15 :: real) < 20"
    by (simp_all add: vase_def)
  note th = placeBid_one_after_the_other
    [where nameA = "''Alice''" and nameB = "''Bob''" and ?t3.0 = 300 and ?u3.0 = 300,
     OF reachable_vase_service db_get_vase_service h(1) h(2) h(2) h(2) h(2) h(3) h(4) h(5)]
  from th [THEN conjunct2, THEN conjunct2, THEN conjunct2, THEN conjunct1]
  have 1: "db_get (snd (placeBid 300 300 300 ''a1'' ''Bob'' (Fin 20)
                   (snd (placeBid 300 300 300 ''a1'' ''Alice'' (Fin 15) vase_service)))) ''a1''
     = Some (vase\<lparr>bids := [\<lparr>bidderName = ''Alice'', amount = Val (Fin 15), time = Val (Fin 300)\<rparr>,
                          \<lparr>bidderName = ''Bob'', amount = Val (Fin 20), time = Val (Fin 300)\<rparr>]\<rparr>)"
    by (simp add: vase_def)
  from th [THEN conjunct2, THEN conjunct2, THEN conjunct2, THEN conjunct2, THEN conjunct1]
  have 2: "fst (placeBid 300 300 300 ''a1'' ''Bob'' (Fin 20) vase_service) = Inr True" by simp
  from th [THEN conjunct2, THEN conjunct2, THEN conjunct2, THEN conjunct2, THEN conjunct2, THEN conjunct1]
  have 3: "fst (placeBid 300 300 300 ''a1'' ''Alice'' (Fin 15)
            (snd (placeBid 300 300 300 ''a1'' ''Bob'' (Fin 20) vase_service)))
       = Inl (Error ''Bid must be higher than the current highest bid'')" by simp
  from th [THEN conjunct2, THEN conjunct2, THEN conjunct2, THEN conjunct2, THEN conjunct2, THEN conjunct2]
  have 4: "db_get (snd (placeBid 300 300 300 ''a1'' ''Bob'' (Fin 20) vase_service)) ''a1''
     = Some (vase\<lparr>bids := [\<lparr>bidderName = ''Bob'', amount = Val (Fin 20), time = Val (Fin 300)\<rparr>]\<rparr>)"
    by (simp add: vase_def)
  from reachable_vase_service 1 2 3 4 show ?thesis by blast
qed

text \<open>
  With both reads done before either write, both bids are accepted and the later write
  replaces the earlier one: Alice's accepted bid of 15 is gone from the record once
  Bob's 20 is written, and in the other order Bob's accepted 20 is replaced by Alice's 15.
\<close>

theorem placeBid_interleaved_counterexample:
  "placeBid_interleaved 300 ''a1'' (''Alice'', Fin 15) (''Bob'', Fin 20) vase_service
     = ((Inr True, Inr True),
        db_put ''a1'' (vase\<lparr>bids := [\<lparr>bidderName = ''Bob'', amount = Val (Fin 20), time = Val (Fin 300)\<rparr>]\<rparr>)
          (db_put ''a1'' (vase\<lparr>bids := [\<lparr>bidderName = ''Alice'', amount = Val (Fin 15), time = Val (Fin 300)\<rparr>]\<rparr>)
             vase_service))
   \<and> db_get (snd (placeBid_interleaved 300 ''a1'' (''Alice'', Fin 15) (''Bob'', Fin 20) vase_service)) ''a1''
     = Some (vase\<lparr>bids := [\<lparr>bidderName = ''Bob'', amount = Val (Fin 20), time = Val (Fin 300)\<rparr>]\<rparr>)
   \<and> fst (placeBid_interleaved 300 ''a1'' (''Bob'', Fin 20) (''Alice'', Fin 15) vase_service)
       = (Inr True, Inr True)
   \<and> db_get (snd (placeBid_interleaved 300 ''a1'' (''Bob'', Fin 20) (''Alice'', Fin 15) vase_service)) ''a1''
     = Some (vase\<lparr>bids := [\<lparr>bidderName = ''Alice'', amount = Val (Fin 15), time = Val (Fin 300)\<rparr>]\<rparr>)"
  by (simp add: placeBid_interleaved_def service_ops example_states)

end
